theory Spec2Isabelle
  imports Complex_Main "HOL-Library.Sublist"
begin

section \<open>Whiteboard: the Stroke Model (Whiteboard component)\<close>

text \<open>
  JavaScript numbers are modelled as reals; a field that is absent (or \<open>null\<close>, which is
  what a NaN becomes on the wire) is \<open>None\<close>.  An object is always truthy, a string is
  truthy when it is not empty, a number is truthy when it is not zero.
\<close>

record point =
  px :: real
  py :: real

record stroke =
  id_stroke :: string
  points :: "point list"
  color :: string
  width :: real
  timestamp :: nat

datatype drawing_type = Start | Draw | End

record drawing_event =
  type_ev :: drawing_type
  strokeId :: string
  point_ev :: "point option"
  color_ev :: "string option"
  width_ev :: "real option"

text \<open>What a handler hands to \<open>socketRef.current.emit\<close>.\<close>

datatype emission = EmitDrawing drawing_event | EmitClear

text \<open>
  The component's state: the React state cells, and the two refs the handlers test.
  \<open>canvas_ctx\<close> says that \<open>canvasRef.current\<close> is set and its 2d context is available;
  \<open>socket_present\<close> says that \<open>socketRef.current\<close> is not null.

  A state setter does not change what a handler reads: \<open>draw\<close> and \<open>stopDrawing\<close> are
  created by a render and read the constants \<open>isDrawing\<close> and \<open>currentStroke\<close> of that
  render.  The cells \<open>isDrawing\<close> and \<open>currentStroke\<close> hold the values with all updates
  applied; \<open>seen_isDrawing\<close> and \<open>seen_currentStroke\<close> hold the values of the last render,
  which are the ones the handlers read.  The color and the brush width are set by no
  handler of the model, so they are the rendered values throughout.
\<close>

record whiteboard =
  canvas_ctx :: bool
  socket_present :: bool
  isDrawing :: bool
  currentColor :: string
  brushWidth :: real
  strokes :: "string \<rightharpoonup> stroke"
  currentStroke :: "stroke option"
  seen_isDrawing :: bool
  seen_currentStroke :: "stroke option"

text \<open>A render: the handlers created by it read the state as it is now.\<close>

definition render :: "whiteboard \<Rightarrow> whiteboard" where
  "render st = st\<lparr>seen_isDrawing := isDrawing st, seen_currentStroke := currentStroke st\<rparr>"

definition truthy_string :: "string option \<Rightarrow> bool" where
  "truthy_string s = (case s of None \<Rightarrow> False | Some c \<Rightarrow> c \<noteq> [])"

definition truthy_number :: "real option \<Rightarrow> bool" where
  "truthy_number n = (case n of None \<Rightarrow> False | Some w \<Rightarrow> w \<noteq> 0)"

text \<open>
  \<open>handleRemoteDrawing\<close>: the clock reading \<open>now\<close> is \<open>Date.now()\<close>.  The function holds
  no call of \<open>emit\<close>, so its emission list is empty on every branch.
\<close>

definition handleRemoteDrawing ::
  "nat \<Rightarrow> drawing_event \<Rightarrow> whiteboard \<Rightarrow> whiteboard \<times> emission list" where
  "handleRemoteDrawing now data st =
     (if \<not> canvas_ctx st then (st, [])
      else case type_ev data of
        Start \<Rightarrow>
          (if truthy_string (color_ev data) \<and> truthy_number (width_ev data)
           then (st\<lparr>strokes := (strokes st)(strokeId data \<mapsto>
                    \<lparr>id_stroke = strokeId data,
                     points = (case point_ev data of Some p \<Rightarrow> [p] | None \<Rightarrow> []),
                     color = the (color_ev data),
                     width = the (width_ev data),
                     timestamp = now\<rparr>)\<rparr>, [])
           else (st, []))
      | Draw \<Rightarrow>
          (case point_ev data of
             None \<Rightarrow> (st, [])
           | Some p \<Rightarrow>
               (case strokes st (strokeId data) of
                  None \<Rightarrow> (st, [])
                | Some s \<Rightarrow>
                    (st\<lparr>strokes := (strokes st)(strokeId data \<mapsto>
                        s\<lparr>points := points s @ [p]\<rparr>)\<rparr>, [])))
      | End \<Rightarrow> (st, []))"

text \<open>
  The local gesture handlers.  The point comes from \<open>getPointFromEvent\<close>, the stroke id
  from the clock and the random generator; both are inputs here.  \<open>draw\<close> tests the
  rendered \<open>isDrawing\<close> and \<open>currentStroke\<close>, appends to the stroke in the cell (its setter
  takes the previous value) and emits the rendered stroke's id.  \<open>stopDrawing\<close> tests the
  rendered values too, and what it commits to the stroke collection is the rendered
  \<open>currentStroke\<close>.
\<close>

definition startDrawing ::
  "point \<Rightarrow> string \<Rightarrow> nat \<Rightarrow> whiteboard \<Rightarrow> whiteboard \<times> emission list" where
  "startDrawing p newId now st =
     (st\<lparr>currentStroke := Some \<lparr>id_stroke = newId, points = [p], color = currentColor st,
                                width = brushWidth st, timestamp = now\<rparr>,
         isDrawing := True\<rparr>,
      if socket_present st
      then [EmitDrawing \<lparr>type_ev = Start, strokeId = newId, point_ev = Some p,
                         color_ev = Some (currentColor st), width_ev = Some (brushWidth st)\<rparr>]
      else [])"

definition draw :: "point \<Rightarrow> whiteboard \<Rightarrow> whiteboard \<times> emission list" where
  "draw p st =
     (case seen_currentStroke st of
        None \<Rightarrow> (st, [])
      | Some cs \<Rightarrow>
          if \<not> seen_isDrawing st then (st, [])
          else (st\<lparr>currentStroke :=
                      (case currentStroke st of
                         Some prev \<Rightarrow> Some (prev\<lparr>points := points prev @ [p]\<rparr>)
                       | None \<Rightarrow> None)\<rparr>,
                if socket_present st
                then [EmitDrawing \<lparr>type_ev = Draw, strokeId = id_stroke cs, point_ev = Some p,
                                   color_ev = None, width_ev = None\<rparr>]
                else []))"

definition stopDrawing :: "whiteboard \<Rightarrow> whiteboard \<times> emission list" where
  "stopDrawing st =
     (case seen_currentStroke st of
        None \<Rightarrow> (st, [])
      | Some cs \<Rightarrow>
          if \<not> seen_isDrawing st then (st, [])
          else (st\<lparr>isDrawing := False, strokes := (strokes st)(id_stroke cs \<mapsto> cs),
                   currentStroke := None\<rparr>,
                if socket_present st
                then [EmitDrawing \<lparr>type_ev = End, strokeId = id_stroke cs, point_ev = None,
                                   color_ev = None, width_ev = None\<rparr>]
                else []))"

text \<open>
  \<open>clearCanvas\<close> is the Clear button's handler and also what the listener of the
  \<open>clear\<close> event calls.
\<close>

definition clearCanvas :: "whiteboard \<Rightarrow> whiteboard \<times> emission list" where
  "clearCanvas st =
     (st\<lparr>strokes := Map.empty, currentStroke := None\<rparr>,
      if socket_present st then [EmitClear] else [])"

text \<open>The two listeners registered on the socket: \<open>drawing\<close> and \<open>clear\<close>.\<close>

datatype remote_event = Drawing drawing_event | Clear

fun receive :: "nat \<Rightarrow> remote_event \<Rightarrow> whiteboard \<Rightarrow> whiteboard \<times> emission list" where
  "receive now (Drawing data) st = handleRemoteDrawing now data st"
| "receive now Clear st = clearCanvas st"

text \<open>Events are handled one at a time, each with the clock reading at its arrival.\<close>

fun applyRemoteEvents :: "whiteboard \<Rightarrow> (nat \<times> remote_event) list \<Rightarrow> whiteboard" where
  "applyRemoteEvents st [] = st"
| "applyRemoteEvents st ((now, e) # es) = applyRemoteEvents (fst (receive now e st)) es"

text \<open>
  A received event that creates (or replaces) the stroke \<open>k\<close>: a start event for \<open>k\<close> whose
  color and width pass the guard.  \<open>resets k\<close> adds the canvas-wide clear.
\<close>

definition creates :: "string \<Rightarrow> drawing_event \<Rightarrow> bool" where
  "creates k data =
     (type_ev data = Start \<and> strokeId data = k
      \<and> truthy_string (color_ev data) \<and> truthy_number (width_ev data))"

fun resets :: "string \<Rightarrow> remote_event \<Rightarrow> bool" where
  "resets k (Drawing data) = creates k data"
| "resets k Clear = True"

fun no_reset :: "string \<Rightarrow> (nat \<times> remote_event) list \<Rightarrow> bool" where
  "no_reset k [] = True"
| "no_reset k ((now, e) # es) = (\<not> resets k e \<and> no_reset k es)"

text \<open>The points carried by the draw events for stroke \<open>k\<close>, in arrival order.\<close>

fun draw_points :: "string \<Rightarrow> (nat \<times> remote_event) list \<Rightarrow> point list" where
  "draw_points k [] = []"
| "draw_points k ((now, Drawing data) # es) =
     (if type_ev data = Draw \<and> strokeId data = k
      then (case point_ev data of Some p \<Rightarrow> p # draw_points k es | None \<Rightarrow> draw_points k es)
      else draw_points k es)"
| "draw_points k ((now, Clear) # es) = draw_points k es"

definition start_points :: "drawing_event \<Rightarrow> point list" where
  "start_points data = (case point_ev data of Some p \<Rightarrow> [p] | None \<Rightarrow> [])"

text \<open>A mounted, connected whiteboard with nothing drawn: the component's initial state.\<close>

definition wb0 :: whiteboard where
  "wb0 = \<lparr>canvas_ctx = True, socket_present = True, isDrawing = False,
          currentColor = ''#000000'', brushWidth = 2, strokes = Map.empty,
          currentStroke = None, seen_isDrawing = False, seen_currentStroke = None\<rparr>"

definition pt :: "real \<Rightarrow> real \<Rightarrow> point" where
  "pt a b = \<lparr>px = a, py = b\<rparr>"

definition start_ev :: "string \<Rightarrow> point \<Rightarrow> string \<Rightarrow> real \<Rightarrow> drawing_event" where
  "start_ev k p c w =
     \<lparr>type_ev = Start, strokeId = k, point_ev = Some p, color_ev = Some c, width_ev = Some w\<rparr>"

definition draw_ev :: "string \<Rightarrow> point \<Rightarrow> drawing_event" where
  "draw_ev k p =
     \<lparr>type_ev = Draw, strokeId = k, point_ev = Some p, color_ev = None, width_ev = None\<rparr>"

definition end_ev :: "string \<Rightarrow> drawing_event" where
  "end_ev k =
     \<lparr>type_ev = End, strokeId = k, point_ev = None, color_ev = None, width_ev = None\<rparr>"


fun no_create :: "string \<Rightarrow> (nat \<times> remote_event) list \<Rightarrow> bool" where
  "no_create k [] = True"
| "no_create k ((now, Drawing data) # es) = (\<not> creates k data \<and> no_create k es)"
| "no_create k ((now, Clear) # es) = no_create k es"





section \<open>Chat: the Message Model and the Presence Tracker (Chat component)\<close>

datatype message_type = Text | File | System

record message =
  id_msg :: string
  type_msg :: message_type
  content :: string
  sender :: string
  timestamp_msg :: nat
  fileName :: "string option"
  fileSize :: "nat option"
  fileType :: "string option"
  downloadUrl :: "string option"
  fileId :: "string option"

record user =
  id_user :: string
  name :: string
  isOnline :: bool

text \<open>
  The connection object of the socket library: \<open>connected\<close> is its flag of the same name,
  \<open>id_sock\<close> stands for the object's identity.  \<open>SocketService\<close> has one field.
\<close>

record socket =
  id_sock :: nat
  connected :: bool

record socket_service =
  socket :: "socket option"

datatype chat_emission = EmitJoinChat string string | EmitChatMessage message

text \<open>
  \<open>SocketService.connect\<close>.  The object that \<open>io(BACKEND_URL, ...)\<close> would return is the
  argument \<open>fresh\<close>; the third component of the result lists the connections that the
  call has created.
\<close>

definition connect :: "socket \<Rightarrow> socket_service \<Rightarrow> socket \<times> socket_service \<times> socket list" where
  "connect fresh svc =
     (case socket svc of
        Some s \<Rightarrow>
          if connected s then (s, svc, [])
          else (fresh, svc\<lparr>socket := Some fresh\<rparr>, [fresh])
      | None \<Rightarrow> (fresh, svc\<lparr>socket := Some fresh\<rparr>, [fresh]))"

definition disconnect :: "socket_service \<Rightarrow> socket_service" where
  "disconnect svc = (case socket svc of Some s \<Rightarrow> svc\<lparr>socket := None\<rparr> | None \<Rightarrow> svc)"

definition joinChat :: "string \<Rightarrow> string \<Rightarrow> socket_service \<Rightarrow> chat_emission list" where
  "joinChat userId userName svc =
     (case socket svc of Some s \<Rightarrow> [EmitJoinChat userId userName] | None \<Rightarrow> [])"

definition sendMessage :: "message \<Rightarrow> socket_service \<Rightarrow> chat_emission list" where
  "sendMessage m svc = (case socket svc of Some s \<Rightarrow> [EmitChatMessage m] | None \<Rightarrow> [])"

text \<open>The Chat component's state, with the socket service it sends through.\<close>

record chat =
  messages :: "message list"
  users :: "user list"
  currentUser :: "user option"
  service :: socket_service

text \<open>Decimal rendering of a clock reading, as the template strings do.\<close>

definition digit_char :: "nat \<Rightarrow> char" where
  "digit_char d = ''0123456789'' ! (d mod 10)"

fun string_of_nat :: "nat \<Rightarrow> string" where
  "string_of_nat n =
     (if n < 10 then [digit_char n] else string_of_nat (n div 10) @ [digit_char (n mod 10)])"

declare string_of_nat.simps [simp del]

definition system_message :: "nat \<Rightarrow> string \<Rightarrow> message" where
  "system_message now text =
     \<lparr>id_msg = ''system_'' @ string_of_nat now, type_msg = System, content = text,
      sender = ''system'', timestamp_msg = now, fileName = None, fileSize = None,
      fileType = None, downloadUrl = None, fileId = None\<rparr>"

text \<open>The five listeners that the component registers on the socket.\<close>

definition handleMessage :: "message \<Rightarrow> chat \<Rightarrow> chat" where
  "handleMessage m st = st\<lparr>messages := messages st @ [m]\<rparr>"

definition handleUserJoined :: "nat \<Rightarrow> user \<Rightarrow> chat \<Rightarrow> chat" where
  "handleUserJoined now u st =
     st\<lparr>users :=
          (case find (\<lambda>v. id_user v = id_user u) (users st) of
             Some e \<Rightarrow> map (\<lambda>v. if id_user v = id_user u then v\<lparr>isOnline := True\<rparr> else v)
                          (users st)
           | None \<Rightarrow> users st @ [u]),
        messages := messages st @ [system_message now (name u @ '' joined the chat'')]\<rparr>"

definition handleUserLeft :: "nat \<Rightarrow> user \<Rightarrow> chat \<Rightarrow> chat" where
  "handleUserLeft now u st =
     (case find (\<lambda>v. id_user v = id_user u) (users st) of
        Some e \<Rightarrow>
          st\<lparr>messages := messages st @ [system_message now (name u @ '' left the chat'')],
             users := map (\<lambda>v. if id_user v = id_user u then v\<lparr>isOnline := False\<rparr> else v)
                        (users st)\<rparr>
      | None \<Rightarrow> st)"

definition handleUsersList :: "user list \<Rightarrow> chat \<Rightarrow> chat" where
  "handleUsersList usersList st = st\<lparr>users := usersList\<rparr>"

definition handleRecentMessages :: "message list \<Rightarrow> chat \<Rightarrow> chat" where
  "handleRecentMessages messagesList st = st\<lparr>messages := messagesList\<rparr>"




definition known_ids :: "chat \<Rightarrow> string set" where
  "known_ids st = set (map id_user (users st))"

text \<open>
  \<open>handleSendMessage\<close>: \<open>now\<close> is the clock reading and \<open>rnd\<close> the random suffix of the
  message id.  The hook's \<open>sendMessage\<close> goes to the service's.
\<close>

definition text_message :: "string \<Rightarrow> nat \<Rightarrow> string \<Rightarrow> user \<Rightarrow> message" where
  "text_message text now rnd u =
     \<lparr>id_msg = ''msg_'' @ string_of_nat now @ ''_'' @ rnd, type_msg = Text, content = text,
      sender = name u, timestamp_msg = now, fileName = None, fileSize = None,
      fileType = None, downloadUrl = None, fileId = None\<rparr>"

definition handleSendMessage ::
  "string \<Rightarrow> nat \<Rightarrow> string \<Rightarrow> chat \<Rightarrow> chat \<times> chat_emission list" where
  "handleSendMessage text now rnd st =
     (case currentUser st of
        None \<Rightarrow> (st, [])
      | Some u \<Rightarrow> (st, sendMessage (text_message text now rnd u) (service st)))"

text \<open>
  The out-of-band calls of the API service.  A call issues one request; the answer is the
  environment's: a response with its \<open>ok\<close> flag, or a rejected \<open>fetch\<close>.  A response that
  is not ok makes the call throw.
\<close>

datatype http_request = DELETE string

datatype fetch_outcome = Response bool | Rejected

datatype api_error = DeleteFailed | FetchFailed

definition BACKEND_URL :: string where
  "BACKEND_URL = ''https://backend-987275518911.us-central1.run.app''"

definition settle :: "fetch_outcome \<Rightarrow> api_error + unit" where
  "settle outcome =
     (case outcome of
        Rejected \<Rightarrow> Inl FetchFailed
      | Response ok \<Rightarrow> if \<not> ok then Inl DeleteFailed else Inr ())"

definition deleteFile :: "string \<Rightarrow> fetch_outcome \<Rightarrow> http_request \<times> (api_error + unit)" where
  "deleteFile fid outcome = (DELETE (BACKEND_URL @ ''/files/'' @ fid), settle outcome)"

definition deleteMessage :: "string \<Rightarrow> fetch_outcome \<Rightarrow> http_request \<times> (api_error + unit)" where
  "deleteMessage messageId outcome =
     (DELETE (BACKEND_URL @ ''/messages/'' @ messageId), settle outcome)"

text \<open>
  What a delete handler does besides updating the state: requests, emissions on the
  socket, and the failure notice.  \<open>confirmed\<close> is the user's answer to the confirmation
  dialog.
\<close>

datatype effect = Fetch http_request | Emit chat_emission | Alert string

definition handleDeleteMessage ::
  "bool \<Rightarrow> fetch_outcome \<Rightarrow> message \<Rightarrow> chat \<Rightarrow> chat \<times> effect list" where
  "handleDeleteMessage confirmed outcome m st =
     (if type_msg m = System then (st, [])
      else if \<not> confirmed then (st, [])
      else
        (case (if type_msg m = File \<and> truthy_string (fileId m)
               then deleteFile (the (fileId m)) outcome
               else deleteMessage (id_msg m) outcome) of
           (req, Inr u) \<Rightarrow>
             (st\<lparr>messages := filter (\<lambda>msg. id_msg msg \<noteq> id_msg m) (messages st)\<rparr>,
              [Fetch req])
         | (req, Inl err) \<Rightarrow>
             (st, [Fetch req, Alert ''Failed to delete message. Please try again.''])))"

definition handleDeleteFile ::
  "bool \<Rightarrow> fetch_outcome \<Rightarrow> message \<Rightarrow> chat \<Rightarrow> chat \<times> effect list" where
  "handleDeleteFile confirmed outcome m st =
     (if type_msg m \<noteq> File \<or> \<not> truthy_string (fileId m) then (st, [])
      else if \<not> confirmed then (st, [])
      else
        (case deleteFile (the (fileId m)) outcome of
           (req, Inr u) \<Rightarrow>
             (st\<lparr>messages := filter (\<lambda>msg. id_msg msg \<noteq> id_msg m) (messages st)\<rparr>,
              [Fetch req])
         | (req, Inl err) \<Rightarrow>
             (st, [Fetch req, Alert ''Failed to delete file. Please try again.''])))"

definition requests :: "effect list \<Rightarrow> http_request list" where
  "requests effs = concat (map (\<lambda>e. case e of Fetch r \<Rightarrow> [r] | _ \<Rightarrow> []) effs)"

definition emitted :: "effect list \<Rightarrow> chat_emission list" where
  "emitted effs = concat (map (\<lambda>e. case e of Emit x \<Rightarrow> [x] | _ \<Rightarrow> []) effs)"

text \<open>
  The single-file Chat component, which the page mounts, has delete handlers of its own.
  Its delete button calls \<open>deleteFile\<close> for a file message and \<open>deleteMessage\<close> for any
  other; both build the request themselves, on the backend URL of the environment
  (\<open>backendUrl\<close>).
\<close>

definition deleteFile_Chat ::
  "string \<Rightarrow> bool \<Rightarrow> fetch_outcome \<Rightarrow> message \<Rightarrow> chat \<Rightarrow> chat \<times> effect list" where
  "deleteFile_Chat backendUrl confirmed outcome m st =
     (if type_msg m \<noteq> File \<or> \<not> truthy_string (fileId m) then (st, [])
      else if \<not> confirmed then (st, [])
      else
        (case settle outcome of
           Inr u \<Rightarrow>
             (st\<lparr>messages := filter (\<lambda>msg. id_msg msg \<noteq> id_msg m) (messages st)\<rparr>,
              [Fetch (DELETE (backendUrl @ ''/files/'' @ the (fileId m)))])
         | Inl err \<Rightarrow>
             (st, [Fetch (DELETE (backendUrl @ ''/files/'' @ the (fileId m))),
                   Alert ''Failed to delete file. Please try again.''])))"

definition deleteMessage_Chat ::
  "string \<Rightarrow> bool \<Rightarrow> fetch_outcome \<Rightarrow> message \<Rightarrow> chat \<Rightarrow> chat \<times> effect list" where
  "deleteMessage_Chat backendUrl confirmed outcome m st =
     (if type_msg m = System then (st, [])
      else if \<not> confirmed then (st, [])
      else
        (case settle outcome of
           Inr u \<Rightarrow>
             (st\<lparr>messages := filter (\<lambda>msg. id_msg msg \<noteq> id_msg m) (messages st)\<rparr>,
              [Fetch (DELETE (backendUrl @ ''/messages/'' @ id_msg m))])
         | Inl err \<Rightarrow>
             (st, [Fetch (DELETE (backendUrl @ ''/messages/'' @ id_msg m)),
                   Alert ''Failed to delete message. Please try again.''])))"

definition onClick_delete ::
  "string \<Rightarrow> bool \<Rightarrow> fetch_outcome \<Rightarrow> message \<Rightarrow> chat \<Rightarrow> chat \<times> effect list" where
  "onClick_delete backendUrl confirmed outcome m st =
     (if type_msg m = File then deleteFile_Chat backendUrl confirmed outcome m st
      else deleteMessage_Chat backendUrl confirmed outcome m st)"

text \<open>Sample data: a user, two connection objects, messages, and a joined client.\<close>

definition ann :: user where
  "ann = \<lparr>id_user = ''u1'', name = ''Ann'', isOnline = True\<rparr>"

definition pending_socket :: "nat \<Rightarrow> socket" where
  "pending_socket n = \<lparr>id_sock = n, connected = False\<rparr>"

definition open_socket :: "nat \<Rightarrow> socket" where
  "open_socket n = \<lparr>id_sock = n, connected = True\<rparr>"

definition sample_message :: "string \<Rightarrow> message_type \<Rightarrow> string option \<Rightarrow> message" where
  "sample_message i t f =
     \<lparr>id_msg = i, type_msg = t, content = ''hello'', sender = ''Ann'', timestamp_msg = 1,
      fileName = None, fileSize = None, fileType = None, downloadUrl = None, fileId = f\<rparr>"

definition chat1 :: chat where
  "chat1 = \<lparr>messages = [], users = [ann], currentUser = Some ann,
            service = \<lparr>socket = Some (open_socket 1)\<rparr>\<rparr>"

definition chat2 :: chat where
  "chat2 = chat1\<lparr>messages := [sample_message ''m1'' Text None,
                                 sample_message ''m2'' File (Some ''f2'')]\<rparr>"

section \<open>Relay Server\<close>

text \<open>
  The backend's event handlers are not among the sources.  The server is modelled from
  the routing table of the specification: its state is the list of open connections, the
  chat identity that a connection has joined with, and the records of the History Store.
\<close>

type_synonym conn = nat

datatype inbound =
    JoinChat string string
  | InChatMessage message
  | InDrawing drawing_event
  | InClear
  | Closes

datatype outbound =
    OutRecentMessages "message list"
  | OutUserJoined string string
  | OutUserLeft string string
  | OutChatMessage message
  | OutDrawing drawing_event
  | OutClear

datatype history_record =
    JoinRecord string string
  | LeaveRecord string string
  | MessageRecord message

record relay =
  connections :: "conn list"
  identities :: "conn \<rightharpoonup> string \<times> string"
  history :: "history_record list"

text \<open>
  Modelled from the spec: "all other connected clients" (the backend's broadcast with the
  sender skipped, missing from the sources).
\<close>

definition others :: "conn \<Rightarrow> relay \<Rightarrow> conn list" where
  "others c srv = filter (\<lambda>d. d \<noteq> c) (connections srv)"

definition broadcast :: "conn \<Rightarrow> relay \<Rightarrow> outbound \<Rightarrow> (conn \<times> outbound) list" where
  "broadcast c srv ev = map (\<lambda>d. (d, ev)) (others c srv)"

definition persist :: "bool \<Rightarrow> history_record \<Rightarrow> relay \<Rightarrow> relay" where
  "persist persisted r srv = (if persisted then srv\<lparr>history := history srv @ [r]\<rparr> else srv)"

definition recent :: "nat \<Rightarrow> history_record list \<Rightarrow> message list" where
  "recent n h =
     (let ms = concat (map (\<lambda>r. case r of MessageRecord m \<Rightarrow> [m] | _ \<Rightarrow> []) h)
      in drop (length ms - n) ms)"

text \<open>
  Modelled from the spec: the event that an inbound event makes the Relay Server
  broadcast, if any (the column "Broadcast out" of the routing table; the backend handlers
  are missing from the sources).  A closing connection triggers \<open>user_left\<close> only if it had
  joined.
\<close>

definition triggered :: "conn \<Rightarrow> inbound \<Rightarrow> relay \<Rightarrow> outbound option" where
  "triggered c ev srv =
     (case ev of
        JoinChat uid uname \<Rightarrow> Some (OutUserJoined uid uname)
      | InChatMessage m \<Rightarrow> Some (OutChatMessage m)
      | InDrawing data \<Rightarrow> Some (OutDrawing data)
      | InClear \<Rightarrow> Some OutClear
      | Closes \<Rightarrow>
          (case identities srv c of
             Some (uid, uname) \<Rightarrow> Some (OutUserLeft uid uname)
           | None \<Rightarrow> None))"

text \<open>
  Modelled from the spec: the Relay Server's handling of one inbound event from
  connection \<open>c\<close> (the backend handlers are missing from the sources).  Every inbound event
  is rebroadcast to all other connections; \<open>join_chat\<close> records the identity, persists a
  join record and first answers the joining connection with the \<open>limit\<close> most recent chat
  messages; \<open>chat_message\<close> is persisted; a closing connection that had joined persists a
  leave record.  Persisting may fail (\<open>persisted = False\<close>), and the broadcast happens all
  the same.
\<close>

definition relay_handle ::
  "nat \<Rightarrow> bool \<Rightarrow> conn \<Rightarrow> inbound \<Rightarrow> relay \<Rightarrow> relay \<times> (conn \<times> outbound) list" where
  "relay_handle limit persisted c ev srv =
     (case ev of
        JoinChat uid uname \<Rightarrow>
          (let srv1 = persist persisted (JoinRecord uid uname)
                        (srv\<lparr>identities := (identities srv)(c \<mapsto> (uid, uname))\<rparr>)
           in (srv1, (c, OutRecentMessages (recent limit (history srv1)))
                       # broadcast c srv (OutUserJoined uid uname)))
      | InChatMessage m \<Rightarrow>
          (persist persisted (MessageRecord m) srv, broadcast c srv (OutChatMessage m))
      | InDrawing data \<Rightarrow> (srv, broadcast c srv (OutDrawing data))
      | InClear \<Rightarrow> (srv, broadcast c srv OutClear)
      | Closes \<Rightarrow>
          (let srv1 = srv\<lparr>connections := others c srv\<rparr>
           in case identities srv c of
                Some (uid, uname) \<Rightarrow>
                  (persist persisted (LeaveRecord uid uname)
                     (srv1\<lparr>identities := (identities srv)(c := None)\<rparr>),
                   broadcast c srv (OutUserLeft uid uname))
              | None \<Rightarrow> (srv1, [])))"

text \<open>The deliveries of one event, and the connections they go to.\<close>

definition recipients :: "outbound \<Rightarrow> (conn \<times> outbound) list \<Rightarrow> conn list" where
  "recipients ev out = map fst (filter (\<lambda>d. snd d = ev) out)"

text \<open>
  Modelled from the spec: what the backend's two delete endpoints do to the History
  Store once they serve a request (the backend is missing from the sources).  The
  specification calls \<open>deleteMessage(id)\<close> and \<open>deleteFile(fileId)\<close> alike a request to remove
  the durable record, and the repository's cleanup guide lists what deleting a file
  removes: the stored file, its metadata, and the chat messages that contain the file.
  So a message record goes when the request is the file-delete request for the file it
  carries, or the message-delete request for its id; join and leave records stay.
\<close>

definition deletes_record :: "http_request \<Rightarrow> message \<Rightarrow> bool" where
  "deletes_record r m =
     ((case fileId m of
         Some fid \<Rightarrow> r = DELETE (BACKEND_URL @ ''/files/'' @ fid)
       | None \<Rightarrow> False)
      \<or> r = DELETE (BACKEND_URL @ ''/messages/'' @ id_msg m))"

definition serve_delete :: "http_request \<Rightarrow> history_record list \<Rightarrow> history_record list" where
  "serve_delete r h =
     filter (\<lambda>rec. case rec of MessageRecord m \<Rightarrow> \<not> deletes_record r m | _ \<Rightarrow> True) h"

text \<open>The records that hold a message with file \<open>fid\<close>, and those that hold message \<open>i\<close>.\<close>

definition without_file :: "string \<Rightarrow> history_record list \<Rightarrow> history_record list" where
  "without_file fid h =
     filter (\<lambda>rec. case rec of MessageRecord m \<Rightarrow> fileId m \<noteq> Some fid | _ \<Rightarrow> True) h"

definition without_message :: "string \<Rightarrow> history_record list \<Rightarrow> history_record list" where
  "without_message i h =
     filter (\<lambda>rec. case rec of MessageRecord m \<Rightarrow> id_msg m \<noteq> i | _ \<Rightarrow> True) h"

text \<open>A server with three connections, the second of which has joined.\<close>

definition relay3 :: relay where
  "relay3 = \<lparr>connections = [1, 2, 3], identities = [2 \<mapsto> (''u1'', ''Ann'')], history = []\<rparr>"

section \<open>Stroke Model: helper lemmas\<close>



lemma handleRemoteDrawing_canvas:
  "canvas_ctx (fst (handleRemoteDrawing now data st)) = canvas_ctx st"
  by (simp add: handleRemoteDrawing_def split: drawing_type.split option.split)

lemma receive_canvas: "canvas_ctx (fst (receive now e st)) = canvas_ctx st"
  by (cases e) (simp_all add: handleRemoteDrawing_canvas clearCanvas_def)

lemma draw_unknown_noop:
  assumes "type_ev data = Draw" and "strokes st (strokeId data) = None"
  shows "handleRemoteDrawing now data st = (st, [])"
  using assms by (simp add: handleRemoteDrawing_def split: option.split)

lemma dropped_start_noop:
  assumes "type_ev data = Start"
    and "\<not> truthy_string (color_ev data) \<or> \<not> truthy_number (width_ev data)"
  shows "handleRemoteDrawing now data st = (st, [])"
  using assms by (auto simp add: handleRemoteDrawing_def)

lemma receive_keeps_stroke:
  assumes "strokes st k = Some s" and "\<not> resets k e"
  shows "\<exists>s'. strokes (fst (receive now e st)) k = Some s'
           \<and> points s' = points s @ (if canvas_ctx st then draw_points k [(now, e)] else [])
           \<and> id_stroke s' = id_stroke s \<and> color s' = color s \<and> width s' = width s
           \<and> timestamp s' = timestamp s"
proof (cases e)
  case Clear
  with assms show ?thesis by simp
next
  case (Drawing data)
  show ?thesis
  proof (cases "type_ev data")
    case Start
    with assms Drawing show ?thesis
      by (auto simp add: handleRemoteDrawing_def creates_def)
  next
    case Draw
    with assms Drawing show ?thesis
      by (auto simp add: handleRemoteDrawing_def split: option.split)
  next
    case End
    with assms Drawing show ?thesis
      by (simp add: handleRemoteDrawing_def)
  qed
qed

lemma run_keeps_stroke:
  assumes "strokes st k = Some s" and "no_reset k evs"
  shows "\<exists>s'. strokes (applyRemoteEvents st evs) k = Some s'
           \<and> points s' = points s @ (if canvas_ctx st then draw_points k evs else [])
           \<and> id_stroke s' = id_stroke s \<and> color s' = color s \<and> width s' = width s
           \<and> timestamp s' = timestamp s"
  using assms
proof (induction evs arbitrary: st s)
  case Nil
  then show ?case by simp
next
  case (Cons a evs)
  obtain now e where a: "a = (now, e)" by (cases a)
  from Cons.prems a have nr: "\<not> resets k e" and rest: "no_reset k evs" by simp_all
  from receive_keeps_stroke [OF Cons.prems(1) nr, of now]
  obtain s1 where s1: "strokes (fst (receive now e st)) k = Some s1"
    and p1: "points s1 = points s @ (if canvas_ctx st then draw_points k [(now, e)] else [])"
    and f1: "id_stroke s1 = id_stroke s" "color s1 = color s" "width s1 = width s" "timestamp s1 = timestamp s"
    by blast
  from Cons.IH [OF s1 rest]
  obtain s' where s': "strokes (applyRemoteEvents (fst (receive now e st)) evs) k = Some s'"
    and p': "points s' = points s1 @ (if canvas_ctx (fst (receive now e st)) then draw_points k evs else [])"
    and f': "id_stroke s' = id_stroke s1" "color s' = color s1" "width s' = width s1" "timestamp s' = timestamp s1"
    by blast
  have split: "draw_points k ((now, e) # evs) = draw_points k [(now, e)] @ draw_points k evs"
    by (cases e) (simp_all split: option.split)
  show ?case
    using s' p' p1 f1 f' a split by (simp add: receive_canvas)
qed

lemma receive_keeps_absent:
  assumes "strokes st k = None" and "case e of Drawing d \<Rightarrow> \<not> creates k d | Clear \<Rightarrow> True"
  shows "strokes (fst (receive now e st)) k = None"
proof (cases e)
  case Clear
  then show ?thesis by (simp add: clearCanvas_def)
next
  case (Drawing data)
  with assms show ?thesis
    by (cases "type_ev data")
       (auto simp add: handleRemoteDrawing_def creates_def split: option.split)
qed

lemma run_keeps_absent:
  assumes "strokes st k = None" and "no_create k evs"
  shows "strokes (applyRemoteEvents st evs) k = None"
  using assms
proof (induction evs arbitrary: st)
  case Nil
  then show ?case by simp
next
  case (Cons a evs)
  obtain now e where a: "a = (now, e)" by (cases a)
  from Cons.prems a
  have ok: "case e of Drawing d \<Rightarrow> \<not> creates k d | Clear \<Rightarrow> True"
    and rest: "no_create k evs"
    by (cases e; simp)+
  have "strokes (fst (receive now e st)) k = None"
    using Cons.prems(1) ok by (rule receive_keeps_absent)
  from Cons.IH [OF this rest] a show ?case by simp
qed







lemma run_canvas: "canvas_ctx (applyRemoteEvents st evs) = canvas_ctx st"
  by (induction st evs rule: applyRemoteEvents.induct) (simp_all add: receive_canvas)

lemma creates_replaces:
  assumes "canvas_ctx st" and "creates k d"
  shows "map_option points (strokes (fst (receive now (Drawing d) st)) k) = Some (start_points d)"
  using assms by (simp add: handleRemoteDrawing_def creates_def start_points_def)

lemmas wb_eval = handleRemoteDrawing_def wb0_def start_ev_def draw_ev_def end_ev_def
  truthy_string_def truthy_number_def clearCanvas_def pt_def creates_def start_points_def

section \<open>Whiteboard: local gestures and received events\<close>




text \<open>
  Without a render between the last pointer move and pointer up, the stroke that is
  committed is the rendered one: it lacks the point of the move, which has been emitted.
\<close>

lemma pointer_up_before_render_commits_rendered_points:
  "snd (draw (pt 5 5) (render (fst (startDrawing (pt 0 0) ''s1'' 7 wb0))))
     = [EmitDrawing (draw_ev ''s1'' (pt 5 5))]
   \<and> map_option points
        (strokes (fst (stopDrawing
           (fst (draw (pt 5 5) (render (fst (startDrawing (pt 0 0) ''s1'' 7 wb0))))))) ''s1'')
       = Some [pt 0 0]"
  by (simp add: startDrawing_def draw_def stopDrawing_def render_def wb0_def draw_ev_def)

section \<open>Stroke Model: growth of a stroke\<close>

text \<open>
  Claim C4, as the code has it.  Once stroke \<open>k\<close> exists, every sequence of received
  events that holds neither a clear nor a start event for \<open>k\<close> that passes the guard
  leaves the points of \<open>k\<close> an extension of what they were.  A start event for \<open>k\<close> that
  passes the guard replaces the stroke: its points are then those of that start event
  (last start wins).
\<close>

theorem stroke_points_grow_until_reset:
  assumes "strokes st k = Some s" and "no_reset k evs"
    and "canvas_ctx st" and "creates k d"
  shows "(\<exists>s'. strokes (applyRemoteEvents st evs) k = Some s' \<and> prefix (points s) (points s'))
       \<and> map_option points
            (strokes (fst (receive now (Drawing d) (applyRemoteEvents st evs))) k)
           = Some (start_points d)"
proof -
  from run_keeps_stroke [OF assms(1,2)]
  have "\<exists>s'. strokes (applyRemoteEvents st evs) k = Some s' \<and> prefix (points s) (points s')"
    by auto
  moreover have "canvas_ctx (applyRemoteEvents st evs)"
    using assms(3) by (simp add: run_canvas)
  then have "map_option points
               (strokes (fst (receive now (Drawing d) (applyRemoteEvents st evs))) k)
             = Some (start_points d)"
    using assms(4) by (rule creates_replaces)
  ultimately show ?thesis by simp
qed


theorem stroke_points_grow_until_reset_witness:
  "strokes (applyRemoteEvents wb0 [(1, Drawing (start_ev ''s1'' (pt 0 0) ''#000'' 2))]) ''s1''
     = Some \<lparr>id_stroke = ''s1'', points = [pt 0 0], color = ''#000'', width = 2, timestamp = 1\<rparr>
   \<and> no_reset ''s1'' [(2, Drawing (draw_ev ''s1'' (pt 5 5))), (3, Drawing (end_ev ''s1'')),
                       (4, Drawing (start_ev ''s2'' (pt 1 1) ''#f00'' 3))]
   \<and> canvas_ctx (applyRemoteEvents wb0 [(1, Drawing (start_ev ''s1'' (pt 0 0) ''#000'' 2))])
   \<and> creates ''s1'' (start_ev ''s1'' (pt 9 9) ''#000'' 2)
   \<and> (\<exists>s'. strokes (applyRemoteEvents
                       (applyRemoteEvents wb0 [(1, Drawing (start_ev ''s1'' (pt 0 0) ''#000'' 2))])
                       [(2, Drawing (draw_ev ''s1'' (pt 5 5))), (3, Drawing (end_ev ''s1'')),
                        (4, Drawing (start_ev ''s2'' (pt 1 1) ''#f00'' 3))]) ''s1'' = Some s'
           \<and> prefix [pt 0 0] (points s'))"
proof -
  let ?st = "applyRemoteEvents wb0 [(1, Drawing (start_ev ''s1'' (pt 0 0) ''#000'' 2))]"
  let ?evs = "[(2, Drawing (draw_ev ''s1'' (pt 5 5))), (3, Drawing (end_ev ''s1'')),
               (4, Drawing (start_ev ''s2'' (pt 1 1) ''#f00'' 3))]"
  have h1: "strokes ?st ''s1'' =
      Some \<lparr>id_stroke = ''s1'', points = [pt 0 0], color = ''#000'', width = 2, timestamp = 1\<rparr>"
    by (simp add: wb_eval)
  have h2: "no_reset ''s1'' ?evs" by (simp add: wb_eval)
  have h3: "canvas_ctx ?st" by (simp add: wb_eval)
  have h4: "creates ''s1'' (start_ev ''s1'' (pt 9 9) ''#000'' 2)" by (simp add: wb_eval)
  from stroke_points_grow_until_reset [OF h1 h2 h3 h4]
  show ?thesis using h1 h2 h3 h4 by simp
qed

text \<open>
  A second start event for an existing stroke id does not extend the stroke: the two
  points held before it are gone afterwards.
\<close>

theorem duplicate_start_replaces_points:
  "map_option points
     (strokes (applyRemoteEvents wb0
        [(1, Drawing (start_ev ''s1'' (pt 0 0) ''#000'' 2)),
         (2, Drawing (draw_ev ''s1'' (pt 5 5)))]) ''s1'') = Some [pt 0 0, pt 5 5]
   \<and> map_option points
     (strokes (applyRemoteEvents wb0
        [(1, Drawing (start_ev ''s1'' (pt 0 0) ''#000'' 2)),
         (2, Drawing (draw_ev ''s1'' (pt 5 5))),
         (3, Drawing (start_ev ''s1'' (pt 9 9) ''#000'' 2))]) ''s1'') = Some [pt 9 9]
   \<and> \<not> prefix [pt 0 0, pt 5 5] [pt 9 9]"
  by (simp add: wb_eval)

section \<open>Stroke Model: the points of a stroke\<close>

text \<open>
  Claim C5, as the code has it.  With the canvas available, after a start event for \<open>k\<close>
  that passes the guard and any later events that hold neither a clear nor another such
  start for \<open>k\<close>, the points of stroke \<open>k\<close> are the start event's point (if it has one)
  followed by the points of the later draw events for \<open>k\<close>, in arrival order.  A draw event
  for an unknown stroke id leaves the state as it is and emits nothing.
\<close>

theorem stroke_points_start_then_draws:
  assumes "canvas_ctx st" and "creates k d" and "no_reset k evs"
    and "type_ev d' = Draw" and "strokes st' (strokeId d') = None"
  shows "map_option points (strokes (applyRemoteEvents st ((t, Drawing d) # evs)) k)
           = Some (start_points d @ draw_points k evs)
       \<and> receive t' (Drawing d') st' = (st', [])"
proof -
  let ?st1 = "fst (receive t (Drawing d) st)"
  obtain s where s: "strokes ?st1 k = Some s" and ps: "points s = start_points d"
    using creates_replaces [OF assms(1,2), of t] by (auto simp add: map_option_case split: option.splits)
  have c1: "canvas_ctx ?st1" using assms(1) by (simp only: receive_canvas)
  from run_keeps_stroke [OF s assms(3)] c1 ps
  have "map_option points (strokes (applyRemoteEvents ?st1 evs) k)
          = Some (start_points d @ draw_points k evs)"
    by auto
  moreover have "receive t' (Drawing d') st' = (st', [])"
    using assms(4,5) by (simp add: draw_unknown_noop)
  ultimately show ?thesis by simp
qed

theorem stroke_points_start_then_draws_witness:
  "canvas_ctx wb0 \<and> creates ''s1'' (start_ev ''s1'' (pt 0 0) ''#000'' 2)
   \<and> no_reset ''s1'' [(2, Drawing (draw_ev ''s1'' (pt 5 5))), (3, Drawing (draw_ev ''s2'' (pt 8 8))),
                       (4, Drawing (draw_ev ''s1'' (pt 6 7)))]
   \<and> type_ev (draw_ev ''s3'' (pt 1 1)) = Draw \<and> strokes wb0 (strokeId (draw_ev ''s3'' (pt 1 1))) = None
   \<and> map_option points (strokes (applyRemoteEvents wb0
        [(1, Drawing (start_ev ''s1'' (pt 0 0) ''#000'' 2)),
         (2, Drawing (draw_ev ''s1'' (pt 5 5))), (3, Drawing (draw_ev ''s2'' (pt 8 8))),
         (4, Drawing (draw_ev ''s1'' (pt 6 7)))]) ''s1'') = Some [pt 0 0, pt 5 5, pt 6 7]
   \<and> receive 9 (Drawing (draw_ev ''s3'' (pt 1 1))) wb0 = (wb0, [])"
proof -
  let ?evs = "[(2, Drawing (draw_ev ''s1'' (pt 5 5))), (3, Drawing (draw_ev ''s2'' (pt 8 8))),
               (4::nat, Drawing (draw_ev ''s1'' (pt 6 7)))]"
  have h1: "canvas_ctx wb0" by (simp add: wb_eval)
  have h2: "creates ''s1'' (start_ev ''s1'' (pt 0 0) ''#000'' 2)" by (simp add: wb_eval)
  have h3: "no_reset ''s1'' ?evs" by (simp add: wb_eval)
  have h4: "type_ev (draw_ev ''s3'' (pt 1 1)) = Draw" by (simp add: wb_eval)
  have h5: "strokes wb0 (strokeId (draw_ev ''s3'' (pt 1 1))) = None" by (simp add: wb_eval)
  have v: "start_points (start_ev ''s1'' (pt 0 0) ''#000'' 2) @ draw_points ''s1'' ?evs
             = [pt 0 0, pt 5 5, pt 6 7]"
    by (simp add: wb_eval)
  from stroke_points_start_then_draws [OF h1 h2 h3 h4 h5, of 1 9]
  show ?thesis using h1 h2 h3 h4 h5 v by simp
qed

text \<open>
  The points of a stroke are not the draw events' points alone: the start event's point
  comes first.
\<close>

theorem start_point_precedes_draw_points:
  "map_option points
     (strokes (applyRemoteEvents wb0
        [(1, Drawing (start_ev ''s1'' (pt 0 0) ''#000'' 2)),
         (2, Drawing (draw_ev ''s1'' (pt 5 5)))]) ''s1'') = Some [pt 0 0, pt 5 5]
   \<and> draw_points ''s1'' [(2, Drawing (draw_ev ''s1'' (pt 5 5)))] = [pt 5 5]
   \<and> [pt 0 0, pt 5 5] \<noteq> [pt 5 5]"
  by (simp add: wb_eval)

section \<open>Stroke Model: a start event that the guard drops\<close>

text \<open>
  Claim C9, as the code has it.  A received start event whose color is absent or empty, or
  whose width is absent or zero, leaves the state as it is.  If its stroke id was unknown
  when it arrived, the id stays unknown through all later events that hold no start event
  for it that passes the guard, so every later draw event for that id is a no-op as well
  and the stroke is never in the collection that is rendered.
\<close>

theorem dropped_start_never_renders:
  assumes "type_ev d = Start"
    and "\<not> truthy_string (color_ev d) \<or> \<not> truthy_number (width_ev d)"
    and "strokes st (strokeId d) = None"
    and "no_create (strokeId d) evs"
    and "type_ev d' = Draw" and "strokeId d' = strokeId d"
  shows "receive t (Drawing d) st = (st, [])
       \<and> strokes (applyRemoteEvents st ((t, Drawing d) # evs)) (strokeId d) = None
       \<and> receive t' (Drawing d') (applyRemoteEvents st ((t, Drawing d) # evs))
           = (applyRemoteEvents st ((t, Drawing d) # evs), [])"
proof -
  have a: "receive t (Drawing d) st = (st, [])"
    using assms(1,2) by (simp add: dropped_start_noop)
  then have b: "applyRemoteEvents st ((t, Drawing d) # evs) = applyRemoteEvents st evs"
    by simp
  have c: "strokes (applyRemoteEvents st evs) (strokeId d) = None"
    using assms(3,4) by (rule run_keeps_absent)
  have "receive t' (Drawing d') (applyRemoteEvents st evs) = (applyRemoteEvents st evs, [])"
    using assms(5,6) c by (simp add: draw_unknown_noop)
  with a b c show ?thesis by simp
qed

theorem dropped_start_never_renders_witness:
  "type_ev \<lparr>type_ev = Start, strokeId = ''s1'', point_ev = Some (pt 0 0),
            color_ev = Some ''#000'', width_ev = Some 0\<rparr> = Start
   \<and> \<not> truthy_number (Some 0)
   \<and> strokes wb0 ''s1'' = None
   \<and> no_create ''s1'' [(2, Drawing (draw_ev ''s1'' (pt 5 5))), (3, Drawing (end_ev ''s1''))]
   \<and> strokes (applyRemoteEvents wb0
        ((1, Drawing \<lparr>type_ev = Start, strokeId = ''s1'', point_ev = Some (pt 0 0),
                       color_ev = Some ''#000'', width_ev = Some 0\<rparr>)
         # [(2, Drawing (draw_ev ''s1'' (pt 5 5))), (3, Drawing (end_ev ''s1''))])) ''s1'' = None"
proof -
  let ?d = "\<lparr>type_ev = Start, strokeId = ''s1'', point_ev = Some (pt 0 0),
             color_ev = Some ''#000'', width_ev = Some (0::real)\<rparr>"
  let ?evs = "[(2::nat, Drawing (draw_ev ''s1'' (pt 5 5))), (3, Drawing (end_ev ''s1''))]"
  have k: "strokeId ?d = ''s1''" by simp
  have h1: "type_ev ?d = Start" by simp
  have z: "\<not> truthy_number (Some 0)" by (simp add: truthy_number_def)
  then have h2: "\<not> truthy_string (color_ev ?d) \<or> \<not> truthy_number (width_ev ?d)"
    by simp
  have h3: "strokes wb0 (strokeId ?d) = None" by (simp add: wb0_def)
  have h4: "no_create (strokeId ?d) ?evs"
    by (simp add: creates_def draw_ev_def end_ev_def)
  have h5: "type_ev (draw_ev ''s1'' (pt 6 6)) = Draw" by (simp add: draw_ev_def)
  have h6: "strokeId (draw_ev ''s1'' (pt 6 6)) = strokeId ?d" by (simp add: draw_ev_def)
  note t = dropped_start_never_renders [OF h1 h2 h3 h4 h5 h6, of 1 4, unfolded k]
  show ?thesis using h1 z h3 [unfolded k] h4 [unfolded k] t by blast
qed


text \<open>
  A draw event after a dropped start event is not a no-op when the stroke exists: because
  an earlier start event for the id had passed the guard, or because a later one does.
\<close>

theorem draw_after_dropped_start_appends:
  "receive 2 (Drawing \<lparr>type_ev = Start, strokeId = ''s1'', point_ev = Some (pt 9 9),
                        color_ev = Some ''#000'', width_ev = Some 0\<rparr>)
     (applyRemoteEvents wb0 [(1, Drawing (start_ev ''s1'' (pt 0 0) ''#000'' 2))])
     = (applyRemoteEvents wb0 [(1, Drawing (start_ev ''s1'' (pt 0 0) ''#000'' 2))], [])
   \<and> map_option points
       (strokes (applyRemoteEvents wb0
          [(1, Drawing (start_ev ''s1'' (pt 0 0) ''#000'' 2)),
           (2, Drawing \<lparr>type_ev = Start, strokeId = ''s1'', point_ev = Some (pt 9 9),
                         color_ev = Some ''#000'', width_ev = Some 0\<rparr>),
           (3, Drawing (draw_ev ''s1'' (pt 5 5)))]) ''s1'') = Some [pt 0 0, pt 5 5]
   \<and> map_option points
       (strokes (applyRemoteEvents wb0
          [(1, Drawing \<lparr>type_ev = Start, strokeId = ''s1'', point_ev = Some (pt 9 9),
                         color_ev = Some ''#000'', width_ev = Some 0\<rparr>),
           (2, Drawing (start_ev ''s1'' (pt 0 0) ''#000'' 2)),
           (3, Drawing (draw_ev ''s1'' (pt 5 5)))]) ''s1'') = Some [pt 0 0, pt 5 5]"
  by (simp add: wb_eval)

section \<open>Chat: helper facts\<close>

lemmas chat_eval = chat1_def chat2_def ann_def open_socket_def pending_socket_def
  sample_message_def handleSendMessage_def sendMessage_def handleMessage_def
  handleUserJoined_def handleUserLeft_def handleUsersList_def handleRecentMessages_def
  known_ids_def handleDeleteMessage_def handleDeleteFile_def deleteFile_def
  deleteMessage_def settle_def requests_def emitted_def truthy_string_def connect_def

section \<open>Chat: sending a text message\<close>

text \<open>
  Claim C2, as the code has it.  The send action builds the message and hands it to the
  socket service, which emits \<open>chat_message\<close> when it holds a socket; the component's
  state, and with it the local message log, is left as it was.  A message enters a log
  where a \<open>chat_message\<close> event is received: the listener appends it.
\<close>

theorem send_emits_and_keeps_log:
  "fst (handleSendMessage text now rnd st) = st
   \<and> snd (handleSendMessage text now rnd st) =
       (case currentUser st of
          None \<Rightarrow> []
        | Some u \<Rightarrow>
            (case socket (service st) of
               None \<Rightarrow> []
             | Some s \<Rightarrow> [EmitChatMessage (text_message text now rnd u)]))
   \<and> messages (handleMessage m st) = messages st @ [m]"
  by (simp add: handleSendMessage_def sendMessage_def handleMessage_def split: option.split)

text \<open>
  After a send from a joined client with an empty log, the log is still empty; the message
  has only been emitted.
\<close>

theorem send_leaves_log_empty:
  "messages (fst (handleSendMessage ''hi'' 5 ''abc'' chat1)) = []
   \<and> snd (handleSendMessage ''hi'' 5 ''abc'' chat1) =
       [EmitChatMessage (text_message ''hi'' 5 ''abc'' ann)]"
  by (simp add: chat_eval)

section \<open>Presence Tracker: the known users\<close>






section \<open>Chat: deleting a message\<close>

lemma delete_message_cases:
  "handleDeleteMessage confirmed outcome m st =
     (if type_msg m \<noteq> System \<and> confirmed
      then (if outcome = Response True
            then st\<lparr>messages := filter (\<lambda>msg. id_msg msg \<noteq> id_msg m) (messages st)\<rparr>
            else st,
            Fetch (if type_msg m = File \<and> truthy_string (fileId m)
                   then DELETE (BACKEND_URL @ ''/files/'' @ the (fileId m))
                   else DELETE (BACKEND_URL @ ''/messages/'' @ id_msg m))
              # (if outcome = Response True then []
                 else [Alert ''Failed to delete message. Please try again.'']))
      else (st, []))"
  by (cases outcome)
     (auto simp add: handleDeleteMessage_def deleteFile_def deleteMessage_def settle_def)







lemma delete_click_cases:
  "requests (snd (onClick_delete backendUrl confirmed outcome m st)) =
     (if type_msg m = File
      then (if truthy_string (fileId m) \<and> confirmed
            then [DELETE (backendUrl @ ''/files/'' @ the (fileId m))] else [])
      else (if type_msg m \<noteq> System \<and> confirmed
            then [DELETE (backendUrl @ ''/messages/'' @ id_msg m)] else []))"
  by (cases outcome)
     (auto simp add: onClick_delete_def deleteFile_Chat_def deleteMessage_Chat_def settle_def
        requests_def)

lemma serve_file_delete:
  "serve_delete (DELETE (BACKEND_URL @ ''/files/'' @ fid)) h = without_file fid h"
proof -
  have "deletes_record (DELETE (BACKEND_URL @ ''/files/'' @ fid)) m = (fileId m = Some fid)" for m
    by (cases "fileId m") (auto simp add: deletes_record_def)
  then show ?thesis
    by (simp add: serve_delete_def without_file_def cong: history_record.case_cong)
qed

lemma serve_message_delete:
  "serve_delete (DELETE (BACKEND_URL @ ''/messages/'' @ i)) h = without_message i h"
proof -
  have "deletes_record (DELETE (BACKEND_URL @ ''/messages/'' @ i)) m = (id_msg m = i)" for m
    by (cases "fileId m") (auto simp add: deletes_record_def)
  then show ?thesis
    by (simp add: serve_delete_def without_message_def cong: history_record.case_cong)
qed

text \<open>
  Claim C10, as the code has it.  In the modular Chat component, a confirmed delete of a
  message that is not a system message issues exactly one request: the file-delete
  request when the message is a file message that carries a non-empty file id, the
  message-delete request otherwise; a system message, or a delete that the user does not
  confirm, issues no request.  In the single-file Chat component, a file message issues
  the file-delete request or, without a file id, no request, and the message-delete
  request is issued for messages that are neither file nor system messages.  Served by
  the backend, the file-delete request removes from the History Store the message records
  that carry the file and keeps every other record; the message-delete request removes
  the records of the message with that id.
\<close>

theorem delete_request_by_message_kind:
  "requests (snd (handleDeleteMessage confirmed outcome m st)) =
     (if type_msg m \<noteq> System \<and> confirmed
      then [if type_msg m = File \<and> truthy_string (fileId m)
            then DELETE (BACKEND_URL @ ''/files/'' @ the (fileId m))
            else DELETE (BACKEND_URL @ ''/messages/'' @ id_msg m)]
      else [])
   \<and> requests (snd (onClick_delete backendUrl confirmed outcome m st)) =
     (if type_msg m = File
      then (if truthy_string (fileId m) \<and> confirmed
            then [DELETE (backendUrl @ ''/files/'' @ the (fileId m))] else [])
      else (if type_msg m \<noteq> System \<and> confirmed
            then [DELETE (backendUrl @ ''/messages/'' @ id_msg m)] else []))
   \<and> serve_delete (DELETE (BACKEND_URL @ ''/files/'' @ fid)) h = without_file fid h
   \<and> serve_delete (DELETE (BACKEND_URL @ ''/messages/'' @ i)) h = without_message i h"
proof -
  have a: "requests (snd (handleDeleteMessage confirmed outcome m st)) =
     (if type_msg m \<noteq> System \<and> confirmed
      then [if type_msg m = File \<and> truthy_string (fileId m)
            then DELETE (BACKEND_URL @ ''/files/'' @ the (fileId m))
            else DELETE (BACKEND_URL @ ''/messages/'' @ id_msg m)]
      else [])"
    by (simp add: delete_message_cases requests_def)
  show ?thesis
    by (rule conjI [OF a conjI [OF delete_click_cases
          conjI [OF serve_file_delete serve_message_delete]]])
qed

theorem delete_request_by_message_kind_witness:
  "requests (snd (handleDeleteMessage True (Response True)
                    (sample_message ''m2'' File (Some ''f2'')) chat2))
     = [DELETE (BACKEND_URL @ ''/files/f2'')]
   \<and> requests (snd (onClick_delete ''http://localhost:8000'' True (Response True)
                       (sample_message ''m3'' File None) chat2)) = []
   \<and> requests (snd (onClick_delete ''http://localhost:8000'' True (Response True)
                       (sample_message ''m1'' Text None) chat2))
       = [DELETE ''http://localhost:8000/messages/m1'']
   \<and> serve_delete (DELETE (BACKEND_URL @ ''/files/f2''))
        [MessageRecord (sample_message ''m1'' Text None),
         MessageRecord (sample_message ''m2'' File (Some ''f2''))]
       = [MessageRecord (sample_message ''m1'' Text None)]"
proof -
  let ?h = "[MessageRecord (sample_message ''m1'' Text None),
             MessageRecord (sample_message ''m2'' File (Some ''f2''))]"
  note t2 = delete_request_by_message_kind
    [where confirmed = True and outcome = "Response True"
       and m = "sample_message ''m2'' File (Some ''f2'')" and st = chat2
       and backendUrl = "''http://localhost:8000''" and fid = "''f2''" and h = ?h
       and i = "''m1''"]
  note t3 = delete_request_by_message_kind
    [where confirmed = True and outcome = "Response True"
       and m = "sample_message ''m3'' File None" and st = chat2
       and backendUrl = "''http://localhost:8000''" and fid = "''f2''" and h = ?h
       and i = "''m1''"]
  note t1 = delete_request_by_message_kind
    [where confirmed = True and outcome = "Response True"
       and m = "sample_message ''m1'' Text None" and st = chat2
       and backendUrl = "''http://localhost:8000''" and fid = "''f2''" and h = ?h
       and i = "''m1''"]
  have a: "requests (snd (handleDeleteMessage True (Response True)
                            (sample_message ''m2'' File (Some ''f2'')) chat2))
             = [DELETE (BACKEND_URL @ ''/files/f2'')]"
    using t2 [THEN conjunct1] by (simp add: sample_message_def truthy_string_def)
  have b: "requests (snd (onClick_delete ''http://localhost:8000'' True (Response True)
                            (sample_message ''m3'' File None) chat2)) = []"
    using t3 [THEN conjunct2, THEN conjunct1]
    by (simp add: sample_message_def truthy_string_def)
  have c: "requests (snd (onClick_delete ''http://localhost:8000'' True (Response True)
                            (sample_message ''m1'' Text None) chat2))
             = [DELETE ''http://localhost:8000/messages/m1'']"
    using t1 [THEN conjunct2, THEN conjunct1]
    by (simp add: sample_message_def)
  have "without_file ''f2'' ?h = [MessageRecord (sample_message ''m1'' Text None)]"
    by (simp add: without_file_def sample_message_def)
  then have d: "serve_delete (DELETE (BACKEND_URL @ ''/files/f2'')) ?h
                  = [MessageRecord (sample_message ''m1'' Text None)]"
    using t2 [THEN conjunct2, THEN conjunct2, THEN conjunct1] by simp
  from a b c d show ?thesis by blast
qed

text \<open>
  In the modular Chat component a file message without a file id falls through the guard:
  its delete issues the message-delete request.  And the record of a file message does not
  stay in the History Store: the file-delete request removes it.
\<close>

theorem file_delete_reaches_message_records:
  "type_msg (sample_message ''m3'' File None) = File
   \<and> requests (snd (handleDeleteMessage True (Response True) (sample_message ''m3'' File None) chat2))
       = [DELETE (BACKEND_URL @ ''/messages/m3'')]
   \<and> requests (snd (handleDeleteMessage True (Response True)
                       (sample_message ''m2'' File (Some ''f2'')) chat2))
       = [DELETE (BACKEND_URL @ ''/files/f2'')]
   \<and> serve_delete (DELETE (BACKEND_URL @ ''/files/f2''))
        [MessageRecord (sample_message ''m1'' Text None),
         MessageRecord (sample_message ''m2'' File (Some ''f2''))]
       = [MessageRecord (sample_message ''m1'' Text None)]"
  by (simp add: delete_message_cases requests_def sample_message_def truthy_string_def
        serve_delete_def deletes_record_def)

section \<open>Socket service: connecting\<close>

text \<open>
  Claim C8, as the code has it.  While the service holds a connection whose \<open>connected\<close> flag
  is set, \<open>connect\<close> returns that connection, leaves the service as it is and creates no
  connection.  So a second \<open>connect\<close> returns the connection of the first one whenever that
  connection is open by then.  While the service holds no connection, or one that is not
  open, \<open>connect\<close> creates a connection, stores it and returns it.
\<close>

theorem connect_reuses_open_connection:
  "(socket svc = Some s \<and> connected s \<longrightarrow> connect fresh svc = (s, svc, []))
   \<and> (connected (fst (connect f1 svc)) \<longrightarrow>
        connect f2 (fst (snd (connect f1 svc)))
          = (fst (connect f1 svc), fst (snd (connect f1 svc)), []))
   \<and> ((case socket svc of Some s \<Rightarrow> \<not> connected s | None \<Rightarrow> True) \<longrightarrow>
        connect fresh svc = (fresh, svc\<lparr>socket := Some fresh\<rparr>, [fresh]))"
  by (auto simp add: connect_def split: option.splits)

text \<open>
  A connection object is not open when it is created.  A second \<open>connect\<close> that comes before
  the first connection has opened creates and returns another connection.
\<close>

theorem second_connect_replaces_pending_connection:
  "fst (connect (pending_socket 1) \<lparr>socket = None\<rparr>) = pending_socket 1
   \<and> fst (connect (pending_socket 2) (fst (snd (connect (pending_socket 1) \<lparr>socket = None\<rparr>))))
       = pending_socket 2
   \<and> snd (snd (connect (pending_socket 2) (fst (snd (connect (pending_socket 1) \<lparr>socket = None\<rparr>)))))
       = [pending_socket 2]
   \<and> pending_socket 2 \<noteq> pending_socket 1"
  by (simp add: connect_def pending_socket_def)


theorem connect_reuses_open_connection_witness:
  "socket \<lparr>socket = Some (open_socket 1)\<rparr> = Some (open_socket 1) \<and> connected (open_socket 1)
   \<and> connect (pending_socket 2) \<lparr>socket = Some (open_socket 1)\<rparr>
       = (open_socket 1, \<lparr>socket = Some (open_socket 1)\<rparr>, [])
   \<and> connected (fst (connect (open_socket 1) \<lparr>socket = None\<rparr>))
   \<and> connect (pending_socket 2) (fst (snd (connect (open_socket 1) \<lparr>socket = None\<rparr>)))
       = (fst (connect (open_socket 1) \<lparr>socket = None\<rparr>),
          fst (snd (connect (open_socket 1) \<lparr>socket = None\<rparr>)), [])
   \<and> fst (connect (open_socket 1) \<lparr>socket = None\<rparr>) = open_socket 1
   \<and> connect (pending_socket 2) \<lparr>socket = None\<rparr>
       = (pending_socket 2, \<lparr>socket = None\<rparr>\<lparr>socket := Some (pending_socket 2)\<rparr>,
          [pending_socket 2])"
proof -
  have h1: "socket \<lparr>socket = Some (open_socket 1)\<rparr> = Some (open_socket 1)"
    by simp
  have h1': "connected (open_socket 1)"
    by (simp add: open_socket_def)
  have v: "fst (connect (open_socket 1) \<lparr>socket = None\<rparr>) = open_socket 1"
    by (simp add: connect_def)
  have h2: "connected (fst (connect (open_socket 1) \<lparr>socket = None\<rparr>))"
    unfolding v by (rule h1')
  have h3: "case socket \<lparr>socket = None\<rparr> of Some s \<Rightarrow> \<not> connected s | None \<Rightarrow> True"
    by simp
  note c1 = connect_reuses_open_connection
    [of "\<lparr>socket = Some (open_socket 1)\<rparr>" "open_socket 1" "pending_socket 2" "open_socket 1"
        "pending_socket 2"]
  note c2 = connect_reuses_open_connection
    [of "\<lparr>socket = None\<rparr>" "open_socket 1" "pending_socket 2" "open_socket 1" "pending_socket 2"]
  have r1: "connect (pending_socket 2) \<lparr>socket = Some (open_socket 1)\<rparr>
              = (open_socket 1, \<lparr>socket = Some (open_socket 1)\<rparr>, [])"
    using c1 h1 h1' by blast
  have r2: "connect (pending_socket 2) (fst (snd (connect (open_socket 1) \<lparr>socket = None\<rparr>)))
       = (fst (connect (open_socket 1) \<lparr>socket = None\<rparr>),
          fst (snd (connect (open_socket 1) \<lparr>socket = None\<rparr>)), [])"
    using c2 h2 by blast
  have r3: "connect (pending_socket 2) \<lparr>socket = None\<rparr>
       = (pending_socket 2, \<lparr>socket = None\<rparr>\<lparr>socket := Some (pending_socket 2)\<rparr>,
          [pending_socket 2])"
    using c2 h3 by blast
  from h1 h1' r1 h2 r2 v r3 show ?thesis by blast
qed

section \<open>Relay Server: the sender is excluded\<close>

lemma length_without_sender:
  "distinct xs \<Longrightarrow> c \<in> set xs \<Longrightarrow> length (filter (\<lambda>d. d \<noteq> c) xs) = length xs - 1"
proof (induction xs)
  case Nil
  then show ?case by simp
next
  case (Cons x xs)
  show ?case
  proof (cases "x = c")
    case True
    with Cons.prems have "c \<notin> set xs" by simp
    then have "filter (\<lambda>d. d \<noteq> c) xs = xs" by (auto simp add: filter_id_conv)
    with True show ?thesis by simp
  next
    case False
    with Cons have "length (filter (\<lambda>d. d \<noteq> c) xs) = length xs - 1" and "xs \<noteq> []"
      by auto
    with False show ?thesis by (cases xs) simp_all
  qed
qed

lemma recipients_broadcast: "recipients E (broadcast c srv E) = others c srv"
  by (simp add: recipients_def broadcast_def filter_map comp_def)

lemma relayed_to_others:
  assumes "triggered c ev srv = Some E"
  shows "recipients E (snd (relay_handle limit persisted c ev srv)) = others c srv"
proof (cases ev)
  case (JoinChat uid uname)
  with assms have E: "E = OutUserJoined uid uname" by (simp add: triggered_def)
  have "recipients E ((c, OutRecentMessages ms) # broadcast c srv E) = others c srv" for ms
    using recipients_broadcast [of E c srv] by (simp add: recipients_def E)
  with JoinChat E show ?thesis by (simp add: relay_handle_def Let_def)
next
  case (InChatMessage m)
  with assms show ?thesis
    by (auto simp add: triggered_def relay_handle_def recipients_broadcast)
next
  case (InDrawing d)
  with assms show ?thesis
    by (auto simp add: triggered_def relay_handle_def recipients_broadcast)
next
  case InClear
  with assms show ?thesis
    by (auto simp add: triggered_def relay_handle_def recipients_broadcast)
next
  case Closes
  with assms show ?thesis
    by (auto simp add: triggered_def relay_handle_def recipients_broadcast Let_def
          split: option.splits)
qed

text \<open>
  Claim C1.  Among N distinct connections, when the connection \<open>c\<close> sends or triggers an
  event that the server broadcasts (\<open>chat_message\<close>, \<open>drawing\<close>, \<open>clear\<close>, \<open>user_joined\<close>
  on \<open>join_chat\<close>, \<open>user_left\<close> on closing after a join), the connections that are sent the
  event are exactly the others: N - 1 of them, \<open>c\<close> not among them.
\<close>

theorem relay_excludes_sender:
  assumes "distinct (connections srv)" and "c \<in> set (connections srv)"
    and "triggered c ev srv = Some E"
  shows "recipients E (snd (relay_handle limit persisted c ev srv)) = others c srv
       \<and> length (recipients E (snd (relay_handle limit persisted c ev srv)))
           = length (connections srv) - 1
       \<and> c \<notin> set (recipients E (snd (relay_handle limit persisted c ev srv)))
       \<and> set (recipients E (snd (relay_handle limit persisted c ev srv)))
           = set (connections srv) - {c}"
proof -
  have r: "recipients E (snd (relay_handle limit persisted c ev srv)) = others c srv"
    using assms(3) by (rule relayed_to_others)
  have l: "length (others c srv) = length (connections srv) - 1"
    unfolding others_def using assms(1,2) by (rule length_without_sender)
  have s: "set (others c srv) = set (connections srv) - {c}"
    by (auto simp add: others_def)
  from r l s show ?thesis by simp
qed

theorem relay_excludes_sender_witness:
  "distinct (connections relay3) \<and> 2 \<in> set (connections relay3)
   \<and> triggered 2 Closes relay3 = Some (OutUserLeft ''u1'' ''Ann'')
   \<and> recipients (OutUserLeft ''u1'' ''Ann'') (snd (relay_handle 50 True 2 Closes relay3)) = [1, 3]
   \<and> length (recipients (OutUserLeft ''u1'' ''Ann'') (snd (relay_handle 50 True 2 Closes relay3)))
       = length (connections relay3) - 1"
proof -
  have h1: "distinct (connections relay3)" by (simp add: relay3_def)
  have h2: "2 \<in> set (connections relay3)" by (simp add: relay3_def)
  have h3: "triggered 2 Closes relay3 = Some (OutUserLeft ''u1'' ''Ann'')"
    by (simp add: triggered_def relay3_def)
  have o: "others 2 relay3 = [1, 3]" by (simp add: others_def relay3_def)
  note t = relay_excludes_sender [OF h1 h2 h3, of 50 True]
  have r1: "recipients (OutUserLeft ''u1'' ''Ann'') (snd (relay_handle 50 True 2 Closes relay3)) = [1, 3]"
    using t o by simp
  have r2: "length (recipients (OutUserLeft ''u1'' ''Ann'') (snd (relay_handle 50 True 2 Closes relay3)))
       = length (connections relay3) - 1"
    using t by blast
  from h1 h2 h3 r1 r2 show ?thesis by blast
qed

end
